theory Spec2Isabelle
  imports Main "HOL-Library.AList" "HOL-Library.Char_ord" "HOL-Library.List_Lexorder"
    "HOL-Library.Sublist"
begin

section \<open>Python values\<close>

text \<open>
  A Python \<open>str\<close> is a \<^typ>\<open>string\<close>; a value that may be \<open>None\<close> is a
  \<^typ>\<open>string option\<close>. One character of the model stands for one character of the
  Python string; the few symbols of the page template outside ASCII are written as the
  bytes the source file holds for them.
\<close>

definition truthy :: "string option \<Rightarrow> bool" where
  \<comment> \<open>the truth value of \<open>None\<close>, of \<open>''\<close> and of any other string\<close>
  "truthy v = (case v of None \<Rightarrow> False | Some s \<Rightarrow> s \<noteq> [])"

definition py_or :: "string option \<Rightarrow> string option \<Rightarrow> string option" where
  \<comment> \<open>\<open>a or b\<close>\<close>
  "py_or a b = (if truthy a then a else b)"

definition or_empty :: "string option \<Rightarrow> string" where
  \<comment> \<open>\<open>x or ''\<close>\<close>
  "or_empty v = (case v of None \<Rightarrow> [] | Some s \<Rightarrow> s)"

definition fmt :: "string option \<Rightarrow> string" where
  \<comment> \<open>a value in a format field: \<open>None\<close> prints as the word\<close>
  "fmt v = (case v of None \<Rightarrow> ''None'' | Some s \<Rightarrow> s)"

section \<open>ElementTree elements\<close>

datatype element =
  Element (tag: string) (attrib: "(string \<times> string) list") (etext: "string option")
    (children: "element list") (tail: "string option")

definition get :: "element \<Rightarrow> string \<Rightarrow> string option" where
  \<comment> \<open>\<open>elem.get(key)\<close>\<close>
  "get e k = map_of (attrib e) k"

fun iter :: "element \<Rightarrow> element list" where
  \<comment> \<open>\<open>elem.iter()\<close>: the element and its descendants in document order\<close>
  "iter (Element t a x cs ta) = Element t a x cs ta # concat (map iter cs)"

definition findall :: "string \<Rightarrow> element \<Rightarrow> element list" where
  \<comment> \<open>\<open>root.findall('.//' + t)\<close>: the descendants of the root with that tag\<close>
  "findall t root = filter (\<lambda>e. tag e = t) (concat (map iter (children root)))"

section \<open>TempEvalParser\<close>

record event =
  e_text :: string
  e_class :: "string option"
  tense :: "string option"
  aspect :: "string option"
  polarity :: "string option"
  pos :: "string option"
  stem :: "string option"
  mainevent :: "string option"

record timex =
  t_text :: string
  t_type :: "string option"
  t_value :: "string option"
  functionInDocument :: "string option"

record tlink =
  lid :: "string option"
  relType :: "string option"
  eventID :: "string option"
  timeID :: "string option"
  relatedToEvent :: "string option"
  relatedToTime :: "string option"
  task :: "string option"

text \<open>
  The dictionaries \<open>self.events\<close> and \<open>self.timexes\<close> keep insertion order; a store
  under a key already present replaces the value in place (\<^const>\<open>AList.update\<close>).
  A key is the value of the \<open>eid\<close> or \<open>tid\<close> attribute, \<open>None\<close> when absent.
\<close>

record parser =
  filepath :: string
  events :: "(string option \<times> event) list"
  timexes :: "(string option \<times> timex) list"
  tlinks :: "tlink list"
  sentences :: "string list"
  raw_xml :: "string option"

definition event_of :: "element \<Rightarrow> event" where
  "event_of e = \<lparr>e_text = or_empty (etext e), e_class = get e ''class'',
     tense = get e ''tense'', aspect = get e ''aspect'', polarity = get e ''polarity'',
     pos = get e ''pos'', stem = get e ''stem'', mainevent = get e ''mainevent''\<rparr>"

definition timex_of :: "element \<Rightarrow> timex" where
  "timex_of e = \<lparr>t_text = or_empty (etext e), t_type = get e ''type'',
     t_value = get e ''value'', functionInDocument = get e ''functionInDocument''\<rparr>"

definition tlink_of :: "element \<Rightarrow> tlink" where
  "tlink_of e = \<lparr>lid = get e ''lid'', relType = get e ''relType'',
     eventID = get e ''eventID'', timeID = get e ''timeID'',
     relatedToEvent = get e ''relatedToEvent'', relatedToTime = get e ''relatedToTime'',
     task = get e ''task''\<rparr>"

definition store_event :: "parser \<Rightarrow> element \<Rightarrow> parser" where
  \<comment> \<open>the body of the loop over \<open>EVENT\<close> elements\<close>
  "store_event p e = p\<lparr>events := AList.update (get e ''eid'') (event_of e) (events p)\<rparr>"

definition store_timex :: "parser \<Rightarrow> element \<Rightarrow> parser" where
  "store_timex p e = p\<lparr>timexes := AList.update (get e ''tid'') (timex_of e) (timexes p)\<rparr>"

definition append_tlink :: "parser \<Rightarrow> element \<Rightarrow> parser" where
  "append_tlink p e = p\<lparr>tlinks := tlinks p @ [tlink_of e]\<rparr>"

definition render_child :: "parser \<Rightarrow> element \<Rightarrow> string list" where
  \<comment> \<open>what one child of a sentence appends to \<open>result\<close>\<close>
  \<open>render_child p child =
    (if tag child = ''EVENT'' then
       (let eid = get child ''eid'';
            txt = or_empty (etext child);
            event_class = (case map_of (events p) eid of
                             None \<Rightarrow> [] | Some ev \<Rightarrow> fmt (e_class ev));
            title = ''ID: '' @ fmt eid @ '', Class: '' @ event_class
        in [''<span class="event" data-id="'' @ fmt eid @ ''" title="'' @ title @ ''">'' @
              txt @ ''</span>'',
            ''<span class="event-id">['' @ fmt eid @ '']</span>''])
     else if tag child = ''TIMEX3'' then
       (let tid = get child ''tid'';
            txt = or_empty (etext child);
            timex_value = (case map_of (timexes p) tid of
                             None \<Rightarrow> [] | Some tx \<Rightarrow> fmt (t_value tx));
            title = ''ID: '' @ fmt tid @ '', Value: '' @ timex_value
        in [''<span class="timex" data-id="'' @ fmt tid @ ''" title="'' @ title @ ''">'' @
              txt @ ''</span>'',
            ''<span class="timex-id">['' @ fmt tid @ '']</span>''])
     else [])
    @ (if truthy (tail child) then [or_empty (tail child)] else [])\<close>

definition render_sentence :: "parser \<Rightarrow> element \<Rightarrow> string" where
  \<comment> \<open>\<open>_render_sentence\<close>\<close>
  "render_sentence p elem =
     concat ((if truthy (etext elem) then [or_empty (etext elem)] else [])
             @ concat (map (render_child p) (children elem)))"

definition append_sentence :: "parser \<Rightarrow> element \<Rightarrow> parser" where
  "append_sentence p s = p\<lparr>sentences := sentences p @ [render_sentence p s]\<rparr>"

definition fill_parser :: "element \<Rightarrow> parser \<Rightarrow> parser" where
  \<comment> \<open>the four loops of \<open>parse_file\<close> over a parsed tree, in the order of the source\<close>
  "fill_parser root p =
     foldl append_sentence
       (foldl append_tlink
         (foldl store_timex
           (foldl store_event p (findall ''EVENT'' root))
           (findall ''TIMEX3'' root))
         (findall ''TLINK'' root))
       (findall ''s'' root)"

text \<open>
  A file of the file system is known by what the two library calls that touch it return:
  \<open>open(path, 'r', encoding='utf-8').read()\<close> and \<open>ET.parse(path).getroot()\<close>. Each
  either returns its value (\<open>Inr\<close>) or raises, with the text of the exception (\<open>Inl\<close>).
  The first decodes the bytes as UTF-8, the second follows the encoding the document
  declares, so one may raise where the other returns.
\<close>

record source_file =
  read_text :: "string + string"
  parse_tree :: "string + element"

type_synonym filesystem = "string \<Rightarrow> source_file"

datatype effect =
    Print string
  | Open_read string
  | ET_parse string
  | Path_exists string
  | Open_write string string

definition error_line :: "string \<Rightarrow> string \<Rightarrow> string" where
  "error_line fp e = ''Error parsing '' @ fp @ '': '' @ e"

definition parse_file :: "filesystem \<Rightarrow> parser \<Rightarrow> parser \<times> effect list" where
  "parse_file fs p =
     (case read_text (fs (filepath p)) of
        Inl e \<Rightarrow> (p, [Open_read (filepath p), Print (error_line (filepath p) e)])
      | Inr raw \<Rightarrow>
          (case parse_tree (fs (filepath p)) of
             Inl e \<Rightarrow> (p\<lparr>raw_xml := Some raw\<rparr>,
                       [Open_read (filepath p), ET_parse (filepath p),
                        Print (error_line (filepath p) e)])
           | Inr root \<Rightarrow> (fill_parser root (p\<lparr>raw_xml := Some raw\<rparr>),
                          [Open_read (filepath p), ET_parse (filepath p)])))"

definition TempEvalParser :: "filesystem \<Rightarrow> string \<Rightarrow> parser \<times> effect list" where
  \<comment> \<open>\<open>__init__\<close>\<close>
  "TempEvalParser fs fp =
     parse_file fs \<lparr>filepath = fp, events = [], timexes = [], tlinks = [],
                    sentences = [], raw_xml = None\<rparr>"

subsection \<open>Plain text\<close>

definition isspace :: "char \<Rightarrow> bool" where
  \<comment> \<open>\<open>str.isspace\<close> on the characters below 256\<close>
  "isspace c = (of_char c \<in> {9, 10, 11, 12, 13, 28, 29, 30, 31, 32, 133, 160 :: nat})"

definition strip :: "string \<Rightarrow> string" where
  "strip s = rev (dropWhile isspace (rev (dropWhile isspace s)))"

fun join :: "string \<Rightarrow> string list \<Rightarrow> string" where
  "join sep [] = []"
| "join sep [x] = x"
| "join sep (x # y # ys) = x @ sep @ join sep (y # ys)"

definition child_plain :: "element \<Rightarrow> string list" where
  "child_plain child =
     (if truthy (etext child) then [or_empty (etext child)] else [])
     @ (if truthy (tail child) then [or_empty (tail child)] else [])"

definition sentence_plain :: "element \<Rightarrow> string" where
  "sentence_plain s =
     strip (concat ((if truthy (etext s) then [or_empty (etext s)] else [])
                    @ concat (map child_plain (children s))))"

definition get_plain_text :: "filesystem \<Rightarrow> parser \<Rightarrow> string \<times> effect list" where
  "get_plain_text fs p =
     (case parse_tree (fs (filepath p)) of
        Inl e \<Rightarrow> (join ''\<newline>'' [], [ET_parse (filepath p)])
      | Inr root \<Rightarrow> (join ''\<newline>'' (map sentence_plain (findall ''s'' root)),
                     [ET_parse (filepath p)]))"

subsection \<open>Graph data\<close>

datatype node_kind =
    Event_node "string option"   \<comment> \<open>\<open>'type': 'event'\<close>, with the \<open>'class'\<close>\<close>
  | Timex_node "string option"   \<comment> \<open>\<open>'type': 'timex'\<close>, with the \<open>'value'\<close>\<close>

record node =
  node_id :: "string option"
  label :: string
  fullText :: string
  kind :: node_kind

record link =
  source :: nat
  target :: nat
  relation :: "string option"
  sourceId :: "string option"
  targetId :: "string option"

type_synonym graph_state = "node list \<times> (string option \<times> nat) list"

definition add_event_node :: "graph_state \<Rightarrow> string option \<times> event \<Rightarrow> graph_state" where
  "add_event_node st kv =
     (case st of (nodes, node_ids) \<Rightarrow> case kv of (eid, ev) \<Rightarrow>
        (nodes @ [\<lparr>node_id = eid, label = take 15 (e_text ev), fullText = e_text ev,
                    kind = Event_node (e_class ev)\<rparr>],
         AList.update eid (length nodes) node_ids))"

definition add_timex_node :: "graph_state \<Rightarrow> string option \<times> timex \<Rightarrow> graph_state" where
  "add_timex_node st kv =
     (case st of (nodes, node_ids) \<Rightarrow> case kv of (tid, tx) \<Rightarrow>
        (nodes @ [\<lparr>node_id = tid, label = take 15 (t_text tx), fullText = t_text tx,
                    kind = Timex_node (t_value tx)\<rparr>],
         AList.update tid (length nodes) node_ids))"

definition add_link :: "(string option \<times> nat) list \<Rightarrow> link list \<Rightarrow> tlink \<Rightarrow> link list" where
  "add_link node_ids links tlk =
     (let src = py_or (eventID tlk) (timeID tlk);
          tgt = py_or (relatedToEvent tlk) (relatedToTime tlk)
      in if truthy src \<and> truthy tgt then
           (case map_of node_ids src of
              None \<Rightarrow> links
            | Some i \<Rightarrow>
                (case map_of node_ids tgt of
                   None \<Rightarrow> links
                 | Some j \<Rightarrow>
                     links @ [\<lparr>source = i, target = j, relation = relType tlk,
                                sourceId = src, targetId = tgt\<rparr>]))
         else links)"

definition graph_nodes :: "parser \<Rightarrow> graph_state" where
  \<comment> \<open>the two loops that fill \<open>nodes\<close> and \<open>node_ids\<close>\<close>
  "graph_nodes p = foldl add_timex_node (foldl add_event_node ([], []) (events p)) (timexes p)"

definition get_graph_data :: "parser \<Rightarrow> node list \<times> link list" where
  "get_graph_data p =
     (case graph_nodes p of (nodes, node_ids) \<Rightarrow>
        (nodes, foldl (add_link node_ids) [] (tlinks p)))"

section \<open>generate_multi_file_html\<close>

subsection \<open>Printing numbers\<close>

definition digit_char :: "nat \<Rightarrow> char" where
  "digit_char d = ''0123456789'' ! (d mod 10)"

function str_nat :: "nat \<Rightarrow> string" where
  \<comment> \<open>\<open>str(n)\<close> of a number that is not negative\<close>
  "str_nat n = (if n < 10 then [digit_char n] else str_nat (n div 10) @ [digit_char n])"
  by pat_completeness auto
termination
  by (relation "measure id") auto

subsection \<open>The pass over the files\<close>

text \<open>
  An input file is a \<open>Path\<close>; the function reads \<open>filepath.name\<close> and
  \<open>str(filepath)\<close> of it and nothing else.
\<close>

record pypath =
  path_name :: string
  path_str :: string

record file_data =
  d_filename :: string
  d_filepath :: string
  d_events :: nat
  d_timexes :: nat
  d_tlinks :: nat
  d_sentences :: "string list"
  d_nodes :: "node list"
  d_links :: "link list"
  d_tasks :: string
  d_task_counts :: "(string \<times> nat) list"
  d_plain_text :: string
  d_raw_xml :: string

text \<open>
  The sets \<open>tasks\<close> and \<open>global_tasks\<close> are lists without repetition; the code only
  adds to them and reads them through \<open>sorted\<close>.
\<close>

type_synonym task_state = "string list \<times> string list \<times> (string \<times> nat) list"

definition count_task :: "task_state \<Rightarrow> tlink \<Rightarrow> task_state" where
  \<comment> \<open>the body of the loop that counts tasks\<close>
  "count_task st tlk =
     (case st of (tasks, global_tasks, task_counts) \<Rightarrow>
        if truthy (task tlk) then
          (let t = or_empty (task tlk) in
             (List.insert t tasks, List.insert t global_tasks,
              AList.update t ((case map_of task_counts t of None \<Rightarrow> 0 | Some c \<Rightarrow> c) + 1)
                task_counts))
        else st)"

definition initial_task_counts :: "(string \<times> nat) list" where
  "initial_task_counts = [(''A'', 0), (''B'', 0), (''C'', 0)]"

definition progress_line :: "nat \<Rightarrow> nat \<Rightarrow> string \<Rightarrow> string" where
  "progress_line i n name = ''  ['' @ str_nat i @ ''/'' @ str_nat n @ ''] '' @ name"

definition process_file ::
  "filesystem \<Rightarrow> nat \<Rightarrow> nat \<Rightarrow> pypath \<Rightarrow> string list \<Rightarrow> file_data \<times> string list \<times> effect list"
where
  \<comment> \<open>one turn of the loop over \<open>enumerate(files, 1)\<close>\<close>
  "process_file fs n i fp global_tasks =
     (case TempEvalParser fs (path_str fp) of (parser, parse_effects) \<Rightarrow>
      case get_graph_data parser of (nodes, links) \<Rightarrow>
      case foldl count_task ([], global_tasks, initial_task_counts) (tlinks parser) of
        (tasks, global_tasks', task_counts) \<Rightarrow>
      case get_plain_text fs parser of (plain, plain_effects) \<Rightarrow>
        (\<lparr>d_filename = path_name fp, d_filepath = path_str fp,
          d_events = length (events parser), d_timexes = length (timexes parser),
          d_tlinks = length (tlinks parser), d_sentences = sentences parser,
          d_nodes = nodes, d_links = links, d_tasks = join '','' (sort tasks),
          d_task_counts = task_counts, d_plain_text = plain,
          d_raw_xml = or_empty (raw_xml parser)\<rparr>,
         global_tasks',
         [Print (progress_line i n (path_name fp))] @ parse_effects @ plain_effects))"

type_synonym pass_state = "file_data list \<times> string list \<times> effect list"

fun process_files :: "filesystem \<Rightarrow> nat \<Rightarrow> nat \<Rightarrow> pypath list \<Rightarrow> pass_state \<Rightarrow> pass_state" where
  "process_files fs n i [] st = st"
| "process_files fs n i (fp # rest) (all_data, global_tasks, effects) =
     (case process_file fs n i fp global_tasks of (d, global_tasks', e) \<Rightarrow>
        process_files fs n (Suc i) rest (all_data @ [d], global_tasks', effects @ e))"

definition py_sum :: "nat list \<Rightarrow> nat" where
  \<comment> \<open>\<open>sum(...)\<close>: from 0, adding the items in order\<close>
  "py_sum xs = foldl (+) 0 xs"

subsection \<open>The page\<close>

definition active_class :: "nat \<Rightarrow> string" where
  "active_class i = (if i = 0 then '' active'' else [])"

definition tasks_str :: "file_data \<Rightarrow> string" where
  "tasks_str d = (if d_tasks d \<noteq> [] then d_tasks d else ''none'')"

definition task_part :: "file_data \<Rightarrow> string \<Rightarrow> string" where
  "task_part d t =
     ''Task '' @ t @ '': <strong>'' @
     str_nat (case map_of (d_task_counts d) t of None \<Rightarrow> 0 | Some c \<Rightarrow> c) @ ''</strong>''"

definition task_info :: "string list \<Rightarrow> file_data \<Rightarrow> string" where
  \<open>task_info global_tasks d =
     (let task_parts = map (task_part d) (sort global_tasks) in
      if task_parts \<noteq> [] then
        ''<div class="file-stat">'' @ join '' | '' task_parts @ ''</div>''
      else [])\<close>

definition cdn_script :: string where
  \<open>cdn_script = ''<script src="https://d3js.org/d3.v7.min.js"></script>''\<close>

definition script_section :: "string option \<Rightarrow> string" where
  \<comment> \<open>lines 635 to 641; the argument is \<open>d3_js\<close>\<close>
  \<open>script_section d3_js =
     ''    </style>\<newline>    <script>\<newline>'' @
     (if truthy d3_js then or_empty d3_js else []) @
     ''\<newline>    </script>\<newline>    '' @
     (if truthy d3_js then [] else cdn_script) @
     ''\<newline></head>\<newline><body>\<newline>''\<close>

definition page_open :: "nat \<Rightarrow> string" where
  \<comment> \<open>lines 232 to 237\<close>
  \<open>page_open n =
     ''<!DOCTYPE html>\<newline>'' @
     ''<html>\<newline>'' @
     ''<head>\<newline>'' @
     ''    <meta charset="UTF-8">\<newline>'' @
     ''    <title>TempEval Visualization - '' @
     str_nat n @
     '' files</title>\<newline>'' @
     ''    <style>\<newline>''\<close>

definition page_header :: "nat \<Rightarrow> nat \<Rightarrow> nat \<Rightarrow> nat \<Rightarrow> string" where
  \<comment> \<open>lines 642 to 744\<close>
  \<open>page_header n total_events total_timexes total_tlinks =
     ''    <div id="rawXmlModal" class="modal">\<newline>'' @
     ''        <div class="modal-content">\<newline>'' @
     ''            <span class="modal-close" onclick="closeRawXML()">&times;</span>\<newline>'' @
     ''            <h2>Raw XML Content</h2>\<newline>'' @
     ''            <pre style="background-color: #f5f5f5; padding: 15px; border-radius: 3px; overflow-x: auto; white-space: pre-wrap; word-wrap: break-word; font-size: 12px; line-height: 1.4;"><code id="rawXmlContent"></code></pre>\<newline>'' @
     ''        </div>\<newline>'' @
     ''    </div>\<newline>'' @
     ''    \<newline>'' @
     ''    <div class="header">\<newline>'' @
     ''        <h1>'' @
     [CHR 0xC3, CHR 0xB0, CHR 0xC5, CHR 0xB8, CHR 0xE2, CHR 0x80, CHR 0x9C, CHR 0xC5, CHR 0xA0] @
     '' TempEval Visualization</h1>\<newline>'' @
     ''        <p>Viewing '' @
     str_nat n @
     '' annotated documents</p>\<newline>'' @
     ''    </div>\<newline>'' @
     ''    \<newline>'' @
     ''    <div class="credits">\<newline>'' @
     ''        '' @
     [CHR 0xC3, CHR 0xB0, CHR 0xC5, CHR 0xB8, CHR 0xE2, CHR 0x80, CHR 0x9C, CHR 0xC5, CHR 0xA1] @
     '' <strong>Data Source:</strong> This visualization uses data from <a href="https://timeml.github.io/site/timebank/timebank.html" target="_blank">TimeBank</a>, \<newline>'' @
     ''        a corpus annotated with <a href="https://timeml.github.io/site/index.html" target="_blank">TimeML</a> temporal markup language. \<newline>'' @
     ''    </div>\<newline>'' @
     ''    \<newline>'' @
     ''    <div class="header">\<newline>'' @
     ''        <div class="stats-bar">\<newline>'' @
     ''            <div class="stat-item">\<newline>'' @
     ''                <div class="stat-number">'' @
     str_nat n @
     ''</div>\<newline>'' @
     ''                <div class="stat-label">Files</div>\<newline>'' @
     ''            </div>\<newline>'' @
     ''            <div class="stat-item">\<newline>'' @
     ''                <div class="stat-number">'' @
     str_nat total_events @
     ''</div>\<newline>'' @
     ''                <div class="stat-label">Total Events</div>\<newline>'' @
     ''            </div>\<newline>'' @
     ''            <div class="stat-item">\<newline>'' @
     ''                <div class="stat-number">'' @
     str_nat total_timexes @
     ''</div>\<newline>'' @
     ''                <div class="stat-label">Total Time Expressions</div>\<newline>'' @
     ''            </div>\<newline>'' @
     ''            <div class="stat-item">\<newline>'' @
     ''                <div class="stat-number">'' @
     str_nat total_tlinks @
     ''</div>\<newline>'' @
     ''                <div class="stat-label">Total Temporal Links</div>\<newline>'' @
     ''            </div>\<newline>'' @
     ''        </div>\<newline>'' @
     ''    </div>\<newline>'' @
     ''    \<newline>'' @
     ''    <div class="container">\<newline>'' @
     ''        <div class="search-box">\<newline>'' @
     ''            <input type="text" id="search" placeholder="'' @
     [CHR 0xC3, CHR 0xB0, CHR 0xC5, CHR 0xB8, CHR 0xE2, CHR 0x80, CHR 0x9D] @
     '' Search files by name..." oninput="applyFilters()">\<newline>'' @
     ''        </div>\<newline>'' @
     ''        \<newline>'' @
     ''        <div class="filter-controls">\<newline>'' @
     ''            <h3>'' @
     [CHR 0xC3, CHR 0xB0, CHR 0xC5, CHR 0xB8, CHR 0xE2, CHR 0x80, CHR 0x9C, CHR 0xC5, CHR 0xA0] @
     '' Sort & Filter</h3>\<newline>'' @
     ''            <div class="filter-row">\<newline>'' @
     ''                <div class="filter-group">\<newline>'' @
     ''                    <label for="sortBy">Sort by:</label>\<newline>'' @
     ''                    <select id="sortBy" onchange="applyFilters()">\<newline>'' @
     ''                        <option value="filename">Filename (A-Z)</option>\<newline>'' @
     ''                        <option value="filename-desc">Filename (Z-A)</option>\<newline>'' @
     ''                        <option value="events-desc">Events (Most first)</option>\<newline>'' @
     ''                        <option value="events-asc">Events (Least first)</option>\<newline>'' @
     ''                        <option value="timexes-desc">Time Expressions (Most first)</option>\<newline>'' @
     ''                        <option value="timexes-asc">Time Expressions (Least first)</option>\<newline>'' @
     ''                        <option value="tlinks-desc">Temporal Links (Most first)</option>\<newline>'' @
     ''                        <option value="tlinks-asc">Temporal Links (Least first)</option>\<newline>'' @
     ''                        <option value="sentences-desc">Sentences (Most first)</option>\<newline>'' @
     ''                        <option value="sentences-asc">Sentences (Least first)</option>\<newline>'' @
     ''                    </select>\<newline>'' @
     ''                </div>\<newline>'' @
     ''                <div class="filter-group">\<newline>'' @
     ''                    <label for="taskFilter">Task:</label>\<newline>'' @
     ''                    <select id="taskFilter" onchange="applyFilters()">\<newline>'' @
     ''                        <option value="all">All Tasks</option>\<newline>'' @
     ''                        <option value="A">Task A only</option>\<newline>'' @
     ''                        <option value="B">Task B only</option>\<newline>'' @
     ''                        <option value="C">Task C only</option>\<newline>'' @
     ''                        <option value="AB">Tasks A & B</option>\<newline>'' @
     ''                    </select>\<newline>'' @
     ''                </div>\<newline>'' @
     ''                <div class="filter-group">\<newline>'' @
     ''                    <label for="minEvents">Min Events:</label>\<newline>'' @
     ''                    <select id="minEvents" onchange="applyFilters()">\<newline>'' @
     ''                        <option value="0">All</option>\<newline>'' @
     ''                        <option value="10">10+</option>\<newline>'' @
     ''                        <option value="20">20+</option>\<newline>'' @
     ''                        <option value="30">30+</option>\<newline>'' @
     ''                        <option value="50">50+</option>\<newline>'' @
     ''                    </select>\<newline>'' @
     ''                </div>\<newline>'' @
     ''                <div class="filter-group">\<newline>'' @
     ''                    <label for="minLinks">Min Links:</label>\<newline>'' @
     ''                    <select id="minLinks" onchange="applyFilters()">\<newline>'' @
     ''                        <option value="0">All</option>\<newline>'' @
     ''                        <option value="5">5+</option>\<newline>'' @
     ''                        <option value="10">10+</option>\<newline>'' @
     ''                        <option value="20">20+</option>\<newline>'' @
     ''                        <option value="30">30+</option>\<newline>'' @
     ''                    </select>\<newline>'' @
     ''                </div>\<newline>'' @
     ''                <div class="filter-group">\<newline>'' @
     ''                    <button onclick="resetFilters()">Reset All</button>\<newline>'' @
     ''                </div>\<newline>'' @
     ''                <div class="filter-group">\<newline>'' @
     ''                    <span id="matchCount" style="color: #7f8c8d; font-size: 14px;"></span>\<newline>'' @
     ''                </div>\<newline>'' @
     ''            </div>\<newline>'' @
     ''        </div>\<newline>'' @
     ''        \<newline>'' @
     ''        <div class="tabs" id="tabs">\<newline>''\<close>

definition tab_button :: "nat \<Rightarrow> file_data \<Rightarrow> string" where
  \<comment> \<open>line 750\<close>
  \<open>tab_button i d =
     ''            <button class="tab'' @
     active_class i @
     ''" onclick="showTab('' @
     str_nat i @
     '')" data-index="'' @
     str_nat i @
     ''" data-filename="'' @
     d_filename d @
     ''" data-events="'' @
     str_nat (d_events d) @
     ''" data-timexes="'' @
     str_nat (d_timexes d) @
     ''" data-tlinks="'' @
     str_nat (d_tlinks d) @
     ''" data-sentences="'' @
     str_nat (length (d_sentences d)) @
     ''" data-tasks="'' @
     tasks_str d @
     ''">'' @
     d_filename d @
     ''</button>\<newline>''\<close>

definition tabs_close :: "string" where
  \<comment> \<open>lines 752 to 754\<close>
  \<open>tabs_close =
     ''        </div>\<newline>'' @
     ''        \<newline>''\<close>

definition tab_header :: "string list \<Rightarrow> nat \<Rightarrow> file_data \<Rightarrow> string" where
  \<comment> \<open>lines 766 to 777\<close>
  \<open>tab_header global_tasks i d =
     ''        <div class="tab-content'' @
     active_class i @
     ''" id="tab-'' @
     str_nat i @
     ''">\<newline>'' @
     ''            <div class="file-header">\<newline>'' @
     ''                <h2>'' @
     d_filename d @
     ''</h2>\<newline>'' @
     ''                <div class="file-stats">\<newline>'' @
     ''                    <div class="file-stat">Events: <strong>'' @
     str_nat (d_events d) @
     ''</strong></div>\<newline>'' @
     ''                    <div class="file-stat">Time Expressions: <strong>'' @
     str_nat (d_timexes d) @
     ''</strong></div>\<newline>'' @
     ''                    <div class="file-stat">Temporal Links: <strong>'' @
     str_nat (d_tlinks d) @
     ''</strong></div>\<newline>'' @
     ''                    <div class="file-stat">Sentences: <strong>'' @
     str_nat (length (d_sentences d)) @
     ''</strong></div>\<newline>'' @
     ''                    '' @
     task_info global_tasks d @
     ''\<newline>'' @
     ''                </div>\<newline>'' @
     ''            </div>\<newline>''\<close>

definition graph_section :: "nat \<Rightarrow> string" where
  \<comment> \<open>lines 781 to 841\<close>
  \<open>graph_section i =
     ''            \<newline>'' @
     ''            <div class="section">\<newline>'' @
     ''                <h3>Temporal Relations Graph</h3>\<newline>'' @
     ''                <div class="relation-legend">\<newline>'' @
     ''                    <h4>Temporal Relations Legend</h4>\<newline>'' @
     ''                    <div class="legend-items">\<newline>'' @
     ''                        <div class="legend-item">\<newline>'' @
     ''                            <div class="legend-color" style="background-color: #e74c3c;"></div>\<newline>'' @
     ''                            <div>\<newline>'' @
     ''                                <div class="legend-label">BEFORE</div>\<newline>'' @
     ''                                <div class="legend-description">Source '' @
     [CHR 0xC3, CHR 0xA2, CHR 0xE2, CHR 0x80, CHR 0xA0, CHR 0xE2, CHR 0x80, CHR 0x99] @
     '' Target: Source occurs before target</div>\<newline>'' @
     ''                            </div>\<newline>'' @
     ''                        </div>\<newline>'' @
     ''                        <div class="legend-item">\<newline>'' @
     ''                            <div class="legend-color" style="background-color: #9b59b6;"></div>\<newline>'' @
     ''                            <div>\<newline>'' @
     ''                                <div class="legend-label">AFTER</div>\<newline>'' @
     ''                                <div class="legend-description">Source '' @
     [CHR 0xC3, CHR 0xA2, CHR 0xE2, CHR 0x80, CHR 0xA0, CHR 0xE2, CHR 0x80, CHR 0x99] @
     '' Target: Source occurs after target</div>\<newline>'' @
     ''                            </div>\<newline>'' @
     ''                        </div>\<newline>'' @
     ''                        <div class="legend-item">\<newline>'' @
     ''                            <div class="legend-color" style="background-color: #f39c12;"></div>\<newline>'' @
     ''                            <div>\<newline>'' @
     ''                                <div class="legend-label">OVERLAP</div>\<newline>'' @
     ''                                <div class="legend-description">Source '' @
     [CHR 0xC3, CHR 0xA2, CHR 0xE2, CHR 0x80, CHR 0xA0, CHR 0xE2, CHR 0x80, CHR 0x99] @
     '' Target: Events overlap in time</div>\<newline>'' @
     ''                            </div>\<newline>'' @
     ''                        </div>\<newline>'' @
     ''                        <div class="legend-item">\<newline>'' @
     ''                            <div class="legend-color" style="background-color: #16a085;"></div>\<newline>'' @
     ''                            <div>\<newline>'' @
     ''                                <div class="legend-label">BEFORE-OR-OVERLAP</div>\<newline>'' @
     ''                                <div class="legend-description">Source '' @
     [CHR 0xC3, CHR 0xA2, CHR 0xE2, CHR 0x80, CHR 0xA0, CHR 0xE2, CHR 0x80, CHR 0x99] @
     '' Target: Before or overlapping (ambiguous)</div>\<newline>'' @
     ''                            </div>\<newline>'' @
     ''                        </div>\<newline>'' @
     ''                        <div class="legend-item">\<newline>'' @
     ''                            <div class="legend-color" style="background-color: #d35400;"></div>\<newline>'' @
     ''                            <div>\<newline>'' @
     ''                                <div class="legend-label">OVERLAP-OR-AFTER</div>\<newline>'' @
     ''                                <div class="legend-description">Source '' @
     [CHR 0xC3, CHR 0xA2, CHR 0xE2, CHR 0x80, CHR 0xA0, CHR 0xE2, CHR 0x80, CHR 0x99] @
     '' Target: Overlapping or after (ambiguous)</div>\<newline>'' @
     ''                            </div>\<newline>'' @
     ''                        </div>\<newline>'' @
     ''                        <div class="legend-item">\<newline>'' @
     ''                            <div class="legend-color" style="background-color: #95a5a6;"></div>\<newline>'' @
     ''                            <div>\<newline>'' @
     ''                                <div class="legend-label">VAGUE</div>\<newline>'' @
     ''                                <div class="legend-description">Source '' @
     [CHR 0xC3, CHR 0xA2, CHR 0xE2, CHR 0x80, CHR 0xA0, CHR 0xE2, CHR 0x80, CHR 0x99] @
     '' Target: Temporal relationship is unclear</div>\<newline>'' @
     ''                            </div>\<newline>'' @
     ''                        </div>\<newline>'' @
     ''                    </div>\<newline>'' @
     ''                </div>\<newline>'' @
     ''                <div class="graph-controls">\<newline>'' @
     ''                    <button onclick="resetGraph('' @
     str_nat i @
     '')">Reset</button>\<newline>'' @
     ''                    <button onclick="fitToView('' @
     str_nat i @
     '')">Fit to View</button>\<newline>'' @
     ''                    <button onclick="zoomIn('' @
     str_nat i @
     '')">Zoom In</button>\<newline>'' @
     ''                    <button onclick="zoomOut('' @
     str_nat i @
     '')">Zoom Out</button>\<newline>'' @
     ''                    <button onclick="toggleGraphLabels('' @
     str_nat i @
     '')">Toggle ID/Text</button>\<newline>'' @
     ''                    <span id="label-status-'' @
     str_nat i @
     ''" style="margin-left: 10px; color: #7f8c8d;">Labels: ID</span>\<newline>'' @
     ''                </div>\<newline>'' @
     ''                <div class="graph-container" id="graph-'' @
     str_nat i @
     ''"></div>\<newline>'' @
     ''            </div>\<newline>''\<close>

definition no_graph :: "string" where
  \<comment> \<open>line 843\<close>
  \<open>no_graph =
     ''            <div class="no-graph">No temporal relations to display</div>\<newline>''\<close>

definition text_section_open :: "nat \<Rightarrow> string" where
  \<comment> \<open>lines 846 to 848\<close>
  \<open>text_section_open i =
     ''            <div class="section" id="text-section-'' @
     str_nat i @
     ''">\<newline>'' @
     ''                <h3>Annotated Text</h3>\<newline>''\<close>

definition sentence_line :: "nat \<Rightarrow> string \<Rightarrow> string" where
  \<comment> \<open>line 850\<close>
  \<open>sentence_line j sentence =
     ''                <div class="sentence"><strong>'' @
     str_nat j @
     ''.</strong> '' @
     sentence @
     ''</div>\<newline>''\<close>

definition relations_open :: "file_data \<Rightarrow> string" where
  \<comment> \<open>lines 852 to 857\<close>
  \<open>relations_open d =
     ''            </div>\<newline>'' @
     ''            \<newline>'' @
     ''            <div class="section">\<newline>'' @
     ''                <h3>Temporal Relations ('' @
     str_nat (length (d_links d)) @
     '')</h3>\<newline>'' @
     ''                <div class="relations-list">\<newline>''\<close>

definition relation_item :: "string \<Rightarrow> string \<Rightarrow> string \<Rightarrow> string \<Rightarrow> string \<Rightarrow> string" where
  \<comment> \<open>lines 881 to 889\<close>
  \<open>relation_item relation_type source_id source_text target_id target_text =
     ''                    <div class="relation-item '' @
     relation_type @
     ''">\<newline>'' @
     ''                        <span class="relation-type '' @
     relation_type @
     ''">'' @
     relation_type @
     ''</span>\<newline>'' @
     ''                        <div style="display: inline-block; margin-left: 10px;">\<newline>'' @
     ''                            <strong>'' @
     source_id @
     ''</strong> <span style="color: #7f8c8d; font-size: 12px;">('' @
     source_text @
     '')</span>\<newline>'' @
     ''                            <span class="relation-arrow">'' @
     [CHR 0xC3, CHR 0xA2, CHR 0xE2, CHR 0x80, CHR 0xA0, CHR 0xE2, CHR 0x80, CHR 0x99] @
     ''</span>\<newline>'' @
     ''                            <strong>'' @
     target_id @
     ''</strong> <span style="color: #7f8c8d; font-size: 12px;">('' @
     target_text @
     '')</span>\<newline>'' @
     ''                        </div>\<newline>'' @
     ''                    </div>\<newline>''\<close>

definition no_relations :: "string" where
  \<comment> \<open>line 891\<close>
  \<open>no_relations =
     ''                    <p style="color: #7f8c8d;">No temporal relations in this file.</p>\<newline>''\<close>

definition export_section :: "nat \<Rightarrow> string" where
  \<comment> \<open>lines 893 to 912\<close>
  \<open>export_section i =
     ''                </div>\<newline>'' @
     ''            </div>\<newline>'' @
     ''            \<newline>'' @
     ''            <div class="section">\<newline>'' @
     ''                <h3>Export Options</h3>\<newline>'' @
     ''                <div style="display: flex; gap: 15px; margin-top: 20px;">\<newline>'' @
     ''                    <button onclick="downloadPlainText('' @
     str_nat i @
     '')" class="export-button">\<newline>'' @
     ''                        '' @
     [CHR 0xC3, CHR 0xB0, CHR 0xC5, CHR 0xB8, CHR 0xE2, CHR 0x80, CHR 0x9C, CHR 0xE2, CHR 0x80, CHR 0x9E] @
     '' Download Plain Text\<newline>'' @
     ''                    </button>\<newline>'' @
     ''                    <button onclick="viewRawXML('' @
     str_nat i @
     '')" class="export-button">\<newline>'' @
     ''                        '' @
     [CHR 0xC3, CHR 0xB0, CHR 0xC5, CHR 0xB8, CHR 0xE2, CHR 0x80, CHR 0x9C, CHR 0xE2, CHR 0x80, CHR 0xB9] @
     '' View Raw XML\<newline>'' @
     ''                    </button>\<newline>'' @
     ''                    <button onclick="downloadRawXML('' @
     str_nat i @
     '')" class="export-button">\<newline>'' @
     ''                        '' @
     [CHR 0xC3, CHR 0xB0, CHR 0xC5, CHR 0xB8, CHR 0xE2, CHR 0x80, CHR 0x99, CHR 0xC2, CHR 0xBE] @
     '' Download Raw XML\<newline>'' @
     ''                    </button>\<newline>'' @
     ''                </div>\<newline>'' @
     ''            </div>\<newline>'' @
     ''        </div>\<newline>'' @
     ''        \<newline>''\<close>

definition truncate30 :: "string \<Rightarrow> string" where
  "truncate30 s = (if length s > 30 then take 27 s @ ''...'' else s)"

definition node_lookup :: "node list \<Rightarrow> (string option \<times> node) list" where
  \<comment> \<open>\<open>{node['id']: node for node in data['nodes']}\<close>\<close>
  "node_lookup nodes = foldl (\<lambda>m nd. AList.update (node_id nd) nd m) [] nodes"

definition node_text :: "(string option \<times> node) list \<Rightarrow> string option \<Rightarrow> string" where
  \<comment> \<open>\<open>node_lookup.get(id, {}).get('fullText', id)\<close>; the ids of a link are strings\<close>
  "node_text lookup k = (case map_of lookup k of None \<Rightarrow> fmt k | Some nd \<Rightarrow> fullText nd)"

definition relation_line :: "(string option \<times> node) list \<Rightarrow> link \<Rightarrow> string" where
  "relation_line lookup l =
     relation_item (fmt (relation l))
       (fmt (sourceId l)) (truncate30 (node_text lookup (sourceId l)))
       (fmt (targetId l)) (truncate30 (node_text lookup (targetId l)))"

fun relation_lines :: "(string option \<times> node) list \<Rightarrow> link list \<Rightarrow> string \<Rightarrow> string" where
  "relation_lines lookup [] html = html"
| "relation_lines lookup (l # ls) html = relation_lines lookup ls (html @ relation_line lookup l)"

fun sentence_lines :: "nat \<Rightarrow> string list \<Rightarrow> string \<Rightarrow> string" where
  \<comment> \<open>the loop over \<open>enumerate(data['sentences'], 1)\<close>\<close>
  "sentence_lines j [] html = html"
| "sentence_lines j (s # ss) html = sentence_lines (Suc j) ss (html @ sentence_line j s)"

definition tab_content :: "string list \<Rightarrow> nat \<Rightarrow> file_data \<Rightarrow> string \<Rightarrow> string" where
  \<comment> \<open>one turn of the loop that writes the tab contents: what it leaves in \<open>html\<close>\<close>
  "tab_content global_tasks i d html =
     (let html1 = html @ tab_header global_tasks i d;
          html2 = html1 @ (if d_nodes d \<noteq> [] then graph_section i else no_graph);
          html3 = html2 @ text_section_open i;
          html4 = sentence_lines 1 (d_sentences d) html3;
          html5 = html4 @ relations_open d;
          html6 = (if d_links d \<noteq> [] then
                     relation_lines (node_lookup (d_nodes d)) (d_links d) html5
                   else html5 @ no_relations)
      in html6 @ export_section i)"

fun tab_buttons :: "nat \<Rightarrow> file_data list \<Rightarrow> string \<Rightarrow> string" where
  \<comment> \<open>the loop over \<open>enumerate(all_data)\<close> that writes the tab buttons\<close>
  "tab_buttons i [] html = html"
| "tab_buttons i (d # ds) html = tab_buttons (Suc i) ds (html @ tab_button i d)"

fun tab_contents :: "string list \<Rightarrow> nat \<Rightarrow> file_data list \<Rightarrow> string \<Rightarrow> string" where
  "tab_contents global_tasks i [] html = html"
| "tab_contents global_tasks i (d # ds) html =
     tab_contents global_tasks (Suc i) ds (tab_content global_tasks i d html)"

text \<open>
  What the function takes from outside the input files: the file system, the library file
  beside the script (\<open>d3_text\<close> is \<open>None\<close> when \<open>d3_path.exists()\<close> is false, else the
  text read from it), \<open>json.dumps\<close> on the three shapes it is called with, and the two long
  stretches of the template that hold no format field: the style sheet (lines 238 to 634,
  doubled braces read as single) and the client script (from the semicolon that ends
  line 924 to the end of the literal on line 1431).
\<close>

record run_context =
  fs :: filesystem
  d3_path :: string
  d3_text :: "string option"
  style_sheet :: string
  client_script :: string
  json_graphs :: "(node list \<times> link list) list \<Rightarrow> string"
  json_strings :: "bool \<Rightarrow> string list \<Rightarrow> string"

definition data_script_open :: string where
  \<open>data_script_open =
     ''    </div>\<newline>'' @
     ''    \<newline>'' @
     ''    <script>\<newline>'' @
     ''        // Store all graph data\<newline>'' @
     ''        const allGraphData = ''\<close>

definition data_script_plain :: string where
  \<open>data_script_plain =
     '';\<newline>'' @
     ''        const graphInstances = {};\<newline>'' @
     ''        \<newline>'' @
     ''        // Store plain text and raw XML data\<newline>'' @
     ''        const allPlainTextData = ''\<close>

definition data_script_raw :: string where
  \<open>data_script_raw =
     '';\<newline>'' @
     ''        const allRawXmlData = ''\<close>

definition data_script_names :: string where
  \<open>data_script_names =
     '';\<newline>'' @
     ''        const allFilenames = ''\<close>

definition final_lines :: "string \<Rightarrow> nat \<Rightarrow> nat \<Rightarrow> nat \<Rightarrow> nat \<Rightarrow> effect list" where
  \<comment> \<open>the five lines printed after the file is written\<close>
  \<open>final_lines output_path n total_events total_timexes total_tlinks =
     [Print (''\<newline>'' @
             [CHR 0xC3, CHR 0xA2, CHR 0xC5, CHR 0x93, CHR 0xE2, CHR 0x80, CHR 0x9C] @
             '' Multi-file visualization exported to: '' @
             output_path),
      Print (''  Total files: '' @
             str_nat n),
      Print (''  Total events: '' @
             str_nat total_events),
      Print (''  Total time expressions: '' @
             str_nat total_timexes),
      Print (''  Total temporal links: '' @
             str_nat total_tlinks)]\<close>

definition embedding_line :: "string \<Rightarrow> string" where
  \<open>embedding_line s =
     ''  Embedding D3.js library ('' @
     str_nat (length s) @
     '' bytes) - fully offline version''\<close>

definition warning_line :: string where
  \<open>warning_line =
     ''  Warning: d3.v7.min.js not found, using CDN (requires internet)''\<close>

definition processing_line :: "nat \<Rightarrow> string" where
  \<open>processing_line n =
     ''Processing '' @
     str_nat n @
     '' files...''\<close>

definition data_script :: "run_context \<Rightarrow> file_data list \<Rightarrow> string" where
  \<comment> \<open>lines 914 to 1431; the flag of \<open>json_strings\<close> is \<open>ensure_ascii\<close>\<close>
  "data_script cx all_data =
     data_script_open @ json_graphs cx (map (\<lambda>d. (d_nodes d, d_links d)) all_data) @
     data_script_plain @ json_strings cx False (map d_plain_text all_data) @
     data_script_raw @ json_strings cx False (map d_raw_xml all_data) @
     data_script_names @ json_strings cx True (map d_filename all_data) @
     client_script cx"

definition read_d3 :: "run_context \<Rightarrow> string option \<times> effect list" where
  \<comment> \<open>lines 221 to 230: the value of \<open>d3_js\<close> and what reading it does\<close>
  "read_d3 cx =
     (case d3_text cx of
        Some s \<Rightarrow> (Some s, [Path_exists (d3_path cx), Open_read (d3_path cx),
                           Print (embedding_line s)])
      | None \<Rightarrow> (None, [Path_exists (d3_path cx), Print warning_line]))"

definition render_page ::
  "run_context \<Rightarrow> nat \<Rightarrow> file_data list \<Rightarrow> string list \<Rightarrow> string option \<Rightarrow> string" where
  \<comment> \<open>lines 232 to 1432: the value of \<open>html\<close> that is written\<close>
  "render_page cx n all_data global_tasks d3_js =
     (let total_events = py_sum (map d_events all_data);
          total_timexes = py_sum (map d_timexes all_data);
          total_tlinks = py_sum (map d_tlinks all_data);
          html1 = page_open n @ style_sheet cx @ script_section d3_js @
                  page_header n total_events total_timexes total_tlinks;
          html2 = tab_buttons 0 all_data html1;
          html3 = html2 @ tabs_close;
          html4 = tab_contents global_tasks 0 all_data html3
      in html4 @ data_script cx all_data)"

definition generate_multi_file_html :: "run_context \<Rightarrow> pypath list \<Rightarrow> string \<Rightarrow> effect list" where
  \<comment> \<open>what a call does, in order\<close>
  "generate_multi_file_html cx files output_path =
     (let n = length files in
      case process_files (fs cx) n 1 files ([], [], [Print (processing_line n)]) of
        (all_data, global_tasks, effects) \<Rightarrow>
      case read_d3 cx of (d3_js, d3_effects) \<Rightarrow>
        effects @ d3_effects @
        [Open_write output_path (render_page cx n all_data global_tasks d3_js)] @
        final_lines output_path n (py_sum (map d_events all_data))
          (py_sum (map d_timexes all_data)) (py_sum (map d_tlinks all_data)))"

section \<open>Vocabulary of the properties\<close>

definition ids_ok :: "graph_state \<Rightarrow> bool" where
  \<comment> \<open>every index stored in \<open>node_ids\<close> points at the node with that id\<close>
  "ids_ok st = (case st of (nodes, node_ids) \<Rightarrow>
     (\<forall>k i. map_of node_ids k = Some i \<longrightarrow> i < length nodes \<and> node_id (nodes ! i) = k))"

definition link_source :: "tlink \<Rightarrow> string option" where
  \<comment> \<open>the source endpoint id of a temporal link: \<open>eventID or timeID\<close>\<close>
  "link_source t = py_or (eventID t) (timeID t)"

definition link_target :: "tlink \<Rightarrow> string option" where
  "link_target t = py_or (relatedToEvent t) (relatedToTime t)"

definition resolves :: "parser \<Rightarrow> string option \<Rightarrow> bool" where
  \<comment> \<open>the id is present and is the id of a known event or time expression\<close>
  "resolves p k = (truthy k \<and> (k \<in> fst ` set (events p) \<or> k \<in> fst ` set (timexes p)))"

definition link_ends :: "link \<Rightarrow> string option \<times> string option \<times> string option" where
  "link_ends l = (sourceId l, targetId l, relation l)"

definition tlink_ends :: "tlink \<Rightarrow> string option \<times> string option \<times> string option" where
  "tlink_ends t = (link_source t, link_target t, relType t)"

section \<open>Example inputs\<close>

definition ex_event :: element where
  "ex_event = Element ''EVENT'' [(''eid'', ''e1''), (''class'', ''OCCURRENCE'')]
     (Some ''said'') [] (Some '' on '')"

definition ex_timex :: element where
  "ex_timex = Element ''TIMEX3'' [(''tid'', ''t1''), (''value'', ''1998-01-08'')]
     (Some ''Thursday'') [] (Some ''.'')"

definition ex_sentence :: element where
  "ex_sentence = Element ''s'' [] (Some ''He '') [ex_event, ex_timex] None"

definition ex_tlink :: element where
  "ex_tlink = Element ''TLINK''
     [(''lid'', ''l1''), (''relType'', ''BEFORE''), (''eventID'', ''e1''),
      (''relatedToTime'', ''t1''), (''task'', ''A'')] None [] None"

definition ex_tlink_dangling :: element where
  "ex_tlink_dangling = Element ''TLINK''
     [(''lid'', ''l2''), (''relType'', ''AFTER''), (''eventID'', ''e1''),
      (''relatedToEvent'', ''e9'')] None [] None"

definition ex_root :: element where
  "ex_root = Element ''TempEval'' [] None [ex_sentence, ex_tlink, ex_tlink_dangling] None"

definition ex_plain_root :: element where
  \<comment> \<open>a document with one sentence and no annotation\<close>
  "ex_plain_root = Element ''TempEval'' [] None [Element ''s'' [] (Some ''Rain.'') [] None] None"

definition ex_dup_first :: element where
  "ex_dup_first = Element ''EVENT'' [(''eid'', ''e1''), (''class'', ''STATE'')] (Some ''was'') [] None"

definition ex_dup_second :: element where
  "ex_dup_second =
     Element ''EVENT'' [(''eid'', ''e1''), (''class'', ''OCCURRENCE'')] (Some ''left'') [] None"

definition ex_dup_root :: element where
  \<comment> \<open>two \<open>EVENT\<close> elements with the same \<open>eid\<close>\<close>
  "ex_dup_root = Element ''TempEval'' [] None
     [Element ''s'' [] None [ex_dup_first, ex_dup_second] None] None"

definition ex_fs :: filesystem where
  "ex_fs path =
     (if path = ''a.tml'' then \<lparr>read_text = Inr ''<TempEval>a</TempEval>'', parse_tree = Inr ex_root\<rparr>
      else if path = ''b.tml'' then
        \<lparr>read_text = Inr ''<TempEval>b</TempEval>'', parse_tree = Inr ex_plain_root\<rparr>
      else if path = ''dup.tml'' then
        \<lparr>read_text = Inr ''<TempEval>dup</TempEval>'', parse_tree = Inr ex_dup_root\<rparr>
      else if path = ''bad.tml'' then
        \<lparr>read_text = Inr ''<TempEval>'', parse_tree = Inl ''no element found''\<rparr>
      else if path = ''latin1.tml'' then
        \<lparr>read_text = Inl ''invalid start byte'', parse_tree = Inr ex_plain_root\<rparr>
      else \<lparr>read_text = Inl ''No such file or directory'',
             parse_tree = Inl ''No such file or directory''\<rparr>)"

definition ex_cx :: "string option \<Rightarrow> run_context" where
  \<comment> \<open>a run context over \<open>ex_fs\<close>; the argument is the text of the library file, if any\<close>
  "ex_cx d3 = \<lparr>fs = ex_fs, d3_path = ''d3.v7.min.js'', d3_text = d3,
     style_sheet = ''body {}'', client_script = '';</script></body></html>'',
     json_graphs = (\<lambda>gs. ''[]''), json_strings = (\<lambda>ascii xs. ''[]'')\<rparr>"

definition ex_path :: "string \<Rightarrow> pypath" where
  "ex_path s = \<lparr>path_name = s, path_str = s\<rparr>"

definition ex_parser :: parser where
  "ex_parser = fst (TempEvalParser ex_fs ''a.tml'')"

definition ex_nodes :: "node list" where
  "ex_nodes =
     [\<lparr>node_id = Some ''e1'', label = ''said'', fullText = ''said'',
        kind = Event_node (Some ''OCCURRENCE'')\<rparr>,
      \<lparr>node_id = Some ''t1'', label = ''Thursday'', fullText = ''Thursday'',
        kind = Timex_node (Some ''1998-01-08'')\<rparr>]"

definition ex_links :: "link list" where
  "ex_links =
     [\<lparr>source = 0, target = 1, relation = Some ''BEFORE'',
        sourceId = Some ''e1'', targetId = Some ''t1''\<rparr>]"

definition new_parser :: "string \<Rightarrow> parser" where
  \<comment> \<open>the parser object before \<open>parse_file\<close> runs\<close>
  "new_parser fp = \<lparr>filepath = fp, events = [], timexes = [], tlinks = [], sentences = [],
     raw_xml = None\<rparr>"

section \<open>Properties of the parser\<close>

lemma foldl_update_map_of:
  "map_of (foldl (\<lambda>al e. AList.update (k e) (v e) al) init es) =
     map_of (rev (map (\<lambda>e. (k e, v e)) es) @ init)"
proof (induction es arbitrary: init)
  case Nil
  then show ?case by simp
next
  case (Cons e es)
  show ?case
    by (simp add: Cons.IH AList.update_conv' map_add_def fun_eq_iff split: option.splits)
qed

lemma foldl_update_keys:
  "fst ` set (foldl (\<lambda>al e. AList.update (k e) (v e) al) init es) =
     fst ` set init \<union> k ` set es"
  by (induction es arbitrary: init) (simp_all add: AList.dom_update)

lemma foldl_update_distinct:
  "distinct (map fst init) \<Longrightarrow>
   distinct (map fst (foldl (\<lambda>al e. AList.update (k e) (v e) al) init es))"
  by (induction es arbitrary: init) (simp_all add: AList.distinct_update)

lemma foldl_update_length:
  "length (foldl (\<lambda>al e. AList.update (k e) (v e) al) [] es) = card (k ` set es)"
proof -
  let ?al = "foldl (\<lambda>al e. AList.update (k e) (v e) al) [] es"
  have "distinct (map fst ?al)" by (rule foldl_update_distinct) simp
  then have "card (set (map fst ?al)) = length (map fst ?al)" by (rule distinct_card)
  moreover have "set (map fst ?al) = k ` set es" using foldl_update_keys[of k v "[]" es] by simp
  ultimately show ?thesis by simp
qed

lemma foldl_store_event:
  "foldl store_event p es =
     p\<lparr>events := foldl (\<lambda>al e. AList.update (get e ''eid'') (event_of e) al) (events p) es\<rparr>"
  by (induction es arbitrary: p) (simp_all add: store_event_def)

lemma foldl_store_timex:
  "foldl store_timex p es =
     p\<lparr>timexes := foldl (\<lambda>al e. AList.update (get e ''tid'') (timex_of e) al) (timexes p) es\<rparr>"
  by (induction es arbitrary: p) (simp_all add: store_timex_def)

lemma foldl_append_tlink:
  "foldl append_tlink p es = p\<lparr>tlinks := tlinks p @ map tlink_of es\<rparr>"
  by (induction es arbitrary: p) (simp_all add: append_tlink_def)

lemma render_child_cong:
  "events p = events q \<Longrightarrow> timexes p = timexes q \<Longrightarrow> render_child p = render_child q"
  unfolding render_child_def fun_eq_iff by simp

lemma render_sentence_cong:
  "events p = events q \<Longrightarrow> timexes p = timexes q \<Longrightarrow> render_sentence p s = render_sentence q s"
  unfolding render_sentence_def by (simp only: render_child_cong [of p q])

lemma foldl_append_sentence:
  "foldl append_sentence p es = p\<lparr>sentences := sentences p @ map (render_sentence p) es\<rparr>"
proof (induction es arbitrary: p)
  case Nil
  then show ?case by simp
next
  case (Cons e es)
  have "render_sentence (append_sentence p e) = render_sentence p"
    by (rule ext, rule render_sentence_cong) (simp_all add: append_sentence_def)
  then have "map (render_sentence (append_sentence p e)) es = map (render_sentence p) es"
    by simp
  then show ?case by (simp add: Cons.IH) (simp add: append_sentence_def)
qed

lemma fill_parser_fields:
  "events (fill_parser root p) =
     foldl (\<lambda>al e. AList.update (get e ''eid'') (event_of e) al) (events p) (findall ''EVENT'' root)"
  "timexes (fill_parser root p) =
     foldl (\<lambda>al e. AList.update (get e ''tid'') (timex_of e) al) (timexes p) (findall ''TIMEX3'' root)"
  "tlinks (fill_parser root p) = tlinks p @ map tlink_of (findall ''TLINK'' root)"
  "raw_xml (fill_parser root p) = raw_xml p"
  "filepath (fill_parser root p) = filepath p"
  by (simp_all add: fill_parser_def foldl_append_sentence foldl_append_tlink foldl_store_timex
      foldl_store_event)

lemma fill_parser_sentences:
  "sentences (fill_parser root p) =
     sentences p @ map (render_sentence (fill_parser root p)) (findall ''s'' root)"
proof -
  let ?q = "foldl append_tlink (foldl store_timex (foldl store_event p (findall ''EVENT'' root))
              (findall ''TIMEX3'' root)) (findall ''TLINK'' root)"
  have e: "events (fill_parser root p) = events ?q" "timexes (fill_parser root p) = timexes ?q"
    by (simp_all add: fill_parser_def foldl_append_sentence)
  have "render_sentence ?q = render_sentence (fill_parser root p)"
    by (rule ext, rule render_sentence_cong) (simp_all only: e)
  then have "map (render_sentence ?q) (findall ''s'' root) =
        map (render_sentence (fill_parser root p)) (findall ''s'' root)"
    by simp
  moreover have "sentences ?q = sentences p"
    by (simp add: foldl_append_tlink foldl_store_timex foldl_store_event)
  ultimately show ?thesis
    by (simp add: fill_parser_def foldl_append_sentence)
qed

lemma ids_ok_event: "ids_ok st \<Longrightarrow> ids_ok (add_event_node st kv)"
  by (cases st; cases kv)
     (auto simp: ids_ok_def add_event_node_def AList.update_conv' nth_append less_Suc_eq)

lemma ids_ok_timex: "ids_ok st \<Longrightarrow> ids_ok (add_timex_node st kv)"
  by (cases st; cases kv)
     (auto simp: ids_ok_def add_timex_node_def AList.update_conv' nth_append less_Suc_eq)

lemma ids_ok_foldl_event: "ids_ok st \<Longrightarrow> ids_ok (foldl add_event_node st kvs)"
  by (induction kvs arbitrary: st) (simp_all add: ids_ok_event)

lemma ids_ok_foldl_timex: "ids_ok st \<Longrightarrow> ids_ok (foldl add_timex_node st kvs)"
  by (induction kvs arbitrary: st) (simp_all add: ids_ok_timex)

lemma ids_ok_graph_nodes: "ids_ok (graph_nodes p)"
  unfolding graph_nodes_def
  by (intro ids_ok_foldl_timex ids_ok_foldl_event) (simp add: ids_ok_def)

lemma keys_foldl_event:
  "fst ` set (snd (foldl add_event_node st kvs)) = fst ` set (snd st) \<union> fst ` set kvs"
  by (induction kvs arbitrary: st)
     (auto simp: add_event_node_def AList.dom_update split: prod.splits)

lemma keys_foldl_timex:
  "fst ` set (snd (foldl add_timex_node st kvs)) = fst ` set (snd st) \<union> fst ` set kvs"
  by (induction kvs arbitrary: st)
     (auto simp: add_timex_node_def AList.dom_update split: prod.splits)

lemma keys_graph_nodes:
  "fst ` set (snd (graph_nodes p)) = fst ` set (events p) \<union> fst ` set (timexes p)"
  by (simp add: graph_nodes_def keys_foldl_timex keys_foldl_event)

lemma length_foldl_event:
  "length (fst (foldl add_event_node st kvs)) = length (fst st) + length kvs"
  by (induction kvs arbitrary: st) (auto simp: add_event_node_def split: prod.splits)

lemma length_foldl_timex:
  "length (fst (foldl add_timex_node st kvs)) = length (fst st) + length kvs"
  by (induction kvs arbitrary: st) (auto simp: add_timex_node_def split: prod.splits)

lemma length_graph_nodes:
  "length (fst (graph_nodes p)) = length (events p) + length (timexes p)"
  by (simp add: graph_nodes_def length_foldl_timex length_foldl_event)

lemma add_link_cases:
  "add_link ids acc t = acc \<and>
     \<not> (truthy (link_source t) \<and> truthy (link_target t) \<and>
        link_source t \<in> fst ` set ids \<and> link_target t \<in> fst ` set ids)
   \<or> (\<exists>i j. add_link ids acc t =
          acc @ [\<lparr>source = i, target = j, relation = relType t,
                  sourceId = link_source t, targetId = link_target t\<rparr>] \<and>
        map_of ids (link_source t) = Some i \<and> map_of ids (link_target t) = Some j \<and>
        truthy (link_source t) \<and> truthy (link_target t))"
  by (auto simp: add_link_def link_source_def link_target_def Let_def map_of_eq_None_iff
      split: option.splits dest: weak_map_of_SomeI
      intro: rev_image_eqI map_of_SomeD)

lemma foldl_add_link_ends:
  "map link_ends (foldl (add_link ids) acc ts) =
     map link_ends acc @
     map tlink_ends (filter (\<lambda>t. truthy (link_source t) \<and> truthy (link_target t) \<and>
        link_source t \<in> fst ` set ids \<and> link_target t \<in> fst ` set ids) ts)"
proof (induction ts arbitrary: acc)
  case Nil
  then show ?case by simp
next
  case (Cons t ts)
  from add_link_cases[of ids acc t] show ?case
  proof (elim disjE conjE exE)
    assume "add_link ids acc t = acc" and
      "\<not> (truthy (link_source t) \<and> truthy (link_target t) \<and>
        link_source t \<in> fst ` set ids \<and> link_target t \<in> fst ` set ids)"
    then show ?thesis by (simp add: Cons.IH)
  next
    fix i j
    assume a: "add_link ids acc t =
          acc @ [\<lparr>source = i, target = j, relation = relType t,
                  sourceId = link_source t, targetId = link_target t\<rparr>]"
      and s: "map_of ids (link_source t) = Some i" "map_of ids (link_target t) = Some j"
      and t: "truthy (link_source t)" "truthy (link_target t)"
    from s have "link_source t \<in> fst ` set ids" "link_target t \<in> fst ` set ids"
      by (metis map_of_eq_None_iff option.distinct(1))+
    with a t show ?thesis by (simp add: Cons.IH) (simp add: link_ends_def tlink_ends_def)
  qed
qed

lemma foldl_add_link_valid:
  assumes "ids_ok (nodes, ids)"
    and "\<forall>l \<in> set acc. source l < length nodes \<and> target l < length nodes \<and>
           node_id (nodes ! source l) = sourceId l \<and> node_id (nodes ! target l) = targetId l"
  shows "\<forall>l \<in> set (foldl (add_link ids) acc ts).
           source l < length nodes \<and> target l < length nodes \<and>
           node_id (nodes ! source l) = sourceId l \<and> node_id (nodes ! target l) = targetId l"
  using assms(2)
proof (induction ts arbitrary: acc)
  case Nil
  then show ?case by simp
next
  case (Cons t ts)
  have "\<forall>l \<in> set (add_link ids acc t). source l < length nodes \<and> target l < length nodes \<and>
           node_id (nodes ! source l) = sourceId l \<and> node_id (nodes ! target l) = targetId l"
    using add_link_cases[of ids acc t] Cons.prems assms(1)
    by (auto simp: ids_ok_def)
  from Cons.IH[OF this] show ?case by simp
qed

text \<open>
  Claim C9. Every link returned by \<open>get_graph_data\<close> has a source and a target that are
  indices into the returned node list, each the index of the node whose id is the link's
  \<open>sourceId\<close> or \<open>targetId\<close>; and the links are, in order, those of the temporal links
  whose two endpoint ids are present and are ids of a known event or time expression, so
  that every other temporal link is left out.
\<close>

theorem get_graph_data_links:
  assumes "get_graph_data p = (nodes, links)"
  shows "(\<forall>l \<in> set links.
            source l < length nodes \<and> target l < length nodes \<and>
            node_id (nodes ! source l) = sourceId l \<and>
            node_id (nodes ! target l) = targetId l) \<and>
         map link_ends links =
           map tlink_ends
             (filter (\<lambda>t. resolves p (link_source t) \<and> resolves p (link_target t)) (tlinks p))"
proof -
  obtain ids where g: "graph_nodes p = (nodes, ids)"
    and l: "links = foldl (add_link ids) [] (tlinks p)"
    using assms by (auto simp: get_graph_data_def split: prod.splits)
  have ok: "ids_ok (nodes, ids)" using ids_ok_graph_nodes[of p] g by simp
  have keys: "fst ` set ids = fst ` set (events p) \<union> fst ` set (timexes p)"
    using keys_graph_nodes[of p] g by simp
  have a: "\<forall>l \<in> set links.
            source l < length nodes \<and> target l < length nodes \<and>
            node_id (nodes ! source l) = sourceId l \<and>
            node_id (nodes ! target l) = targetId l"
    unfolding l by (rule foldl_add_link_valid[OF ok]) simp
  have "(\<lambda>t. truthy (link_source t) \<and> truthy (link_target t) \<and>
              link_source t \<in> fst ` set ids \<and> link_target t \<in> fst ` set ids) =
        (\<lambda>t. resolves p (link_source t) \<and> resolves p (link_target t))"
    by (auto simp: resolves_def keys fun_eq_iff)
  then have b: "map link_ends links =
           map tlink_ends
             (filter (\<lambda>t. resolves p (link_source t) \<and> resolves p (link_target t)) (tlinks p))"
    unfolding l using foldl_add_link_ends[of ids "[]" "tlinks p"] by simp
  from a b show ?thesis by blast
qed

theorem get_graph_data_links_witness:
  "get_graph_data ex_parser = (ex_nodes, ex_links) \<and>
   source (ex_links ! 0) < length ex_nodes \<and> target (ex_links ! 0) < length ex_nodes \<and>
   node_id (ex_nodes ! source (ex_links ! 0)) = sourceId (ex_links ! 0) \<and>
   node_id (ex_nodes ! target (ex_links ! 0)) = targetId (ex_links ! 0) \<and>
   map link_ends ex_links =
     map tlink_ends
       (filter (\<lambda>t. resolves ex_parser (link_source t) \<and> resolves ex_parser (link_target t))
          (tlinks ex_parser)) \<and>
   length (tlinks ex_parser) = 2 \<and> length ex_links = 1"
proof -
  have eq: "get_graph_data ex_parser = (ex_nodes, ex_links)" by code_simp
  have n: "length (tlinks ex_parser) = 2" by code_simp
  have m: "ex_links ! 0 \<in> set ex_links" by (simp add: ex_links_def)
  from get_graph_data_links[OF eq] m eq n show ?thesis
    by (simp add: ex_links_def)
qed

end
